theory Spec2Isabelle
  imports Main
begin

section \<open>JavaScript values and builtins the code relies on\<close>

text \<open>
  A thrown value is represented by its message (the code only ever reads
  \<open>err.message\<close> or \<open>String(err)\<close>). A computation that may throw returns a sum, with
  \<open>Inl e\<close> for the exception \<open>e\<close>; the result of an \<open>async\<close> function is a promise
  that is resolved with a value or rejected with an exception.
\<close>

type_synonym exn = string

datatype 'a promise = Resolved 'a | Rejected exn

text \<open>
  Truthiness of an optional string: \<open>null\<close>, \<open>undefined\<close> and the empty string are
  falsy, every other string is truthy.
\<close>

definition truthy :: "string option \<Rightarrow> bool" where
  "truthy s = (case s of None \<Rightarrow> False | Some t \<Rightarrow> t \<noteq> [])"

text \<open>\<open>a || b\<close> on optional strings with a string default.\<close>

definition or_default :: "string option \<Rightarrow> string \<Rightarrow> string" where
  "or_default s d = (case s of None \<Rightarrow> d | Some t \<Rightarrow> if t = [] then d else t)"

text \<open>
  A JavaScript number as far as \<open>parseInt\<close> can return one: \<open>NaN\<close>, an integer-valued
  double, or an infinity.
\<close>

datatype js_number = NaN | Finite int | PosInfinity | NegInfinity

text \<open>
  Strings are sequences of bytes, the UTF-8 form of the JavaScript string.
  \<open>whiteSpaceLength s\<close> is the number of bytes of the white space or line terminator
  character that \<open>s\<close> starts with, and 0 when it starts with none. The characters are
  U+0009 to U+000D, U+0020, U+00A0, U+1680, U+2000 to U+200A, U+2028, U+2029, U+202F,
  U+205F, U+3000 and U+FEFF; the byte \<open>0xA0\<close> on its own, which is the no-break space
  when the bytes are read as Latin-1, is taken as white space too.
\<close>

definition whiteSpaceLength :: "string \<Rightarrow> nat" where
  "whiteSpaceLength s =
     (let b = map (\<lambda>c. of_char c :: nat) (take 3 s) in
      if take 1 b \<in> set [[9], [10], [11], [12], [13], [32], [160]] then 1
      else if take 2 b = [194, 160] then 2
      else if b \<in> set ([[225, 154, 128], [226, 128, 168], [226, 128, 169], [226, 128, 175],
                       [226, 129, 159], [227, 128, 128], [239, 187, 191]]
                      @ map (\<lambda>k. [226, 128, k]) [128 ..< 139])
      then 3
      else 0)"

fun trimStart :: "string \<Rightarrow> string" where
  "trimStart [] = []"
| "trimStart (c # cs) =
     (if whiteSpaceLength (c # cs) = 0 then c # cs
      else trimStart (drop (whiteSpaceLength (c # cs) - 1) cs))"

definition digitValue :: "char \<Rightarrow> int option" where
  "digitValue c =
     (let n = (of_char c :: int) in
      if 48 \<le> n \<and> n \<le> 57 then Some (n - 48)
      else if 97 \<le> n \<and> n \<le> 122 then Some (n - 87)
      else if 65 \<le> n \<and> n \<le> 90 then Some (n - 55)
      else None)"

fun digitsPrefix :: "int \<Rightarrow> string \<Rightarrow> int list" where
  "digitsPrefix R [] = []"
| "digitsPrefix R (c # cs) =
     (case digitValue c of
        None \<Rightarrow> []
      | Some d \<Rightarrow> if d < R then d # digitsPrefix R cs else [])"

text \<open>
  The double nearest to a natural number \<open>n\<close>, ties going to the even significand:
  \<open>n\<close> itself when it fits in 53 bits, and \<open>None\<close> for the values that round to
  infinity.
\<close>

function bitLength :: "int \<Rightarrow> nat" where
  "bitLength n = (if n \<le> 0 then 0 else Suc (bitLength (n div 2)))"
  by pat_completeness auto
termination
  by (relation "measure nat") auto

definition toDouble :: "int \<Rightarrow> int option" where
  "toDouble n =
     (if bitLength n \<le> 53 then Some n
      else
        (let e = bitLength n - 53;
             q = n div 2 ^ e;
             r = n mod 2 ^ e;
             half = 2 ^ (e - 1);
             q' = (if r > half \<or> (r = half \<and> odd q) then q + 1 else q);
             v = q' * 2 ^ e
         in if v < 2 ^ 1024 then Some v else None))"

text \<open>
  The builtin \<open>parseInt(string)\<close> with no radix argument: leading white space is skipped,
  an optional sign is read, a \<open>0x\<close>/\<open>0X\<close> prefix selects radix 16 (radix 10 otherwise),
  the longest prefix of digits of that radix is converted and rounded to a double, and the
  result is \<open>NaN\<close> when that prefix is empty.
\<close>

definition parseInt :: "string \<Rightarrow> js_number" where
  "parseInt s =
     (let t = trimStart s;
          negative = (take 1 t = ''-'');
          u = (if take 1 t = ''-'' \<or> take 1 t = ''+'' then drop 1 t else t);
          R = (if take 2 u = ''0x'' \<or> take 2 u = ''0X'' then 16 else (10 :: int));
          v = (if take 2 u = ''0x'' \<or> take 2 u = ''0X'' then drop 2 u else u);
          ds = digitsPrefix R v
      in if ds = [] then NaN
         else
           (case toDouble (foldl (\<lambda>a d. a * R + d) 0 ds) of
              None \<Rightarrow> if negative then NegInfinity else PosInfinity
            | Some k \<Rightarrow> Finite (if negative then - k else k)))"

text \<open>
  A loop ceiling is compared with a counter and nothing else. As a ceiling, \<open>NaN\<close> is
  \<open>None\<close>, a finite number is itself, and an infinity is given as \<open>2^1024\<close> with its
  sign, which lies beyond every finite double.
\<close>

definition ceiling_of :: "js_number \<Rightarrow> int option" where
  "ceiling_of x =
     (case x of
        NaN \<Rightarrow> None
      | Finite k \<Rightarrow> Some k
      | PosInfinity \<Rightarrow> Some (2 ^ 1024)
      | NegInfinity \<Rightarrow> Some (- (2 ^ 1024)))"


text \<open>\<open>i < m\<close> on JavaScript numbers where \<open>m\<close> may be \<open>NaN\<close>: false for \<open>NaN\<close>.\<close>

definition js_less :: "nat \<Rightarrow> int option \<Rightarrow> bool" where
  "js_less i m = (case m of None \<Rightarrow> False | Some k \<Rightarrow> int i < k)"

section \<open>The multi-step loop (\<open>runMultiStepCoreTest\<close>)\<close>

subsection \<open>Data\<close>

text \<open>An entry of \<open>traceActionResult\<close>.\<close>

record trace_entry =
  actionName :: string
  success :: bool
  entry_text :: "string option"
  entry_error :: "string option"

text \<open>
  The \<open>isFinish\<close> field of a parsed step: absent, a boolean or a string (the code
  compares it with both \<open>'true'\<close> and \<open>true\<close>).
\<close>

datatype finish_flag = FinishAbsent | FinishBool bool | FinishStr string

text \<open>
  What \<open>parseKeyValueXml\<close> returned for a decision step, after the destructuring
  \<open>{ thought, providers = [], action, isFinish }\<close>: \<open>providers\<close> is the list (empty
  when absent), \<open>thought\<close> and \<open>action\<close> are \<open>None\<close> when absent or \<open>null\<close>.
\<close>

record parsed_step =
  thought :: "string option"
  providers :: "string list"
  action :: "string option"
  isFinish :: finish_flag

text \<open>What \<open>provider.get\<close> does when it is awaited.\<close>

datatype provider_get =
    GetThrows exn
  | GetNoResult
  | GetResult "string option" "string option"

text \<open>An element of the cached \<open>actionResults\<close> list read from \<open>runtime.stateCache\<close>.\<close>

record cached_result =
  cached_success :: "bool option"
  cached_text :: "string option"

text \<open>The two places where the caller's \<open>callback\<close> is awaited directly.\<close>

datatype callback_site = AtFinish | AtProvider nat

text \<open>
  The outside world during one iteration of the loop. All of it is controlled by the
  runtime, the model and the caller, so it is a parameter: for each awaited call, whether
  it throws (\<open>Some e\<close>) and what it returns. \<open>provider_get_at j name\<close> is the outcome
  of \<open>provider.get\<close> for the \<open>j\<close>-th name of this step's provider list.
\<close>

record step_world =
  composeState_throws :: "exn option"
  useModel_throws :: "exn option"
  parseKeyValueXml_result :: "parsed_step option"
  provider_get_at :: "nat \<Rightarrow> string \<Rightarrow> provider_get"
  callback_throws :: "callback_site \<Rightarrow> exn option"
  processActions_throws :: "exn option"
  cached_actionResults :: "cached_result list"

text \<open>What the summary's model output parses to.\<close>

record parsed_summary =
  summary_text :: "string option"
  summary_thought :: "string option"

record summary_world =
  summary_composeState_throws :: "exn option"
  summary_useModel_throws :: "exn option"
  summary_parse_result :: "parsed_summary option"

record outside_world =
  step_at :: "nat \<Rightarrow> step_world"
  summary :: summary_world

text \<open>
  The part of the runtime the function reads. \<open>MAX_MULTISTEP_ITERATIONS\<close> is what
  \<open>getSetting\<close> returns for that key: a string, or \<open>None\<close> when the setting is unset.
\<close>

record runtime =
  agentId :: string
  registered_providers :: "string list"
  MAX_MULTISTEP_ITERATIONS :: "string option"

text \<open>
  Calls to the logger change nothing the function returns and are left out. The calls to
  \<open>runtime.composeState\<close> and \<open>runtime.useModel\<close> are recorded, each with
  the place it is made from: inside iteration \<open>i\<close> of the loop, or in the final summary.
\<close>

datatype site = InStep nat | InSummary

datatype call = ComposeState site | UseModel site

record ms_state =
  traceActionResult :: "trace_entry list"
  calls :: "call list"

definition push :: "trace_entry \<Rightarrow> ms_state \<Rightarrow> ms_state" where
  "push e st = st\<lparr>traceActionResult := traceActionResult st @ [e]\<rparr>"

definition record_call :: "call \<Rightarrow> ms_state \<Rightarrow> ms_state" where
  "record_call c st = st\<lparr>calls := calls st @ [c]\<rparr>"

subsection \<open>The body of the \<open>try\<close> block\<close>

text \<open>
  The provider loop. The result is the exception that left the loop, if any, and the
  trace as it stands at that moment (entries pushed before a throw stay pushed).
\<close>

fun executeProviders ::
  "runtime \<Rightarrow> step_world \<Rightarrow> nat \<Rightarrow> string list \<Rightarrow> trace_entry list
     \<Rightarrow> exn option \<times> trace_entry list" where
  "executeProviders rt w j [] tr = (None, tr)"
| "executeProviders rt w j (providerName # rest) tr =
     (if providerName \<notin> set (registered_providers rt) then
        executeProviders rt w (Suc j) rest
          (tr @ [\<lparr>actionName = providerName, success = False, entry_text = None,
                  entry_error = Some (''Provider not found: '' @ providerName)\<rparr>])
      else
        (case provider_get_at w j providerName of
           GetThrows e \<Rightarrow> (Some e, tr)
         | GetNoResult \<Rightarrow>
             executeProviders rt w (Suc j) rest
               (tr @ [\<lparr>actionName = providerName, success = False, entry_text = None,
                       entry_error = Some ''Provider returned no result''\<rparr>])
         | GetResult txt err \<Rightarrow>
             (let tr' = tr @ [\<lparr>actionName = providerName, success = truthy txt,
                                entry_text = (if truthy txt then txt else None),
                                entry_error = (if truthy txt then None else err)\<rparr>]
              in case callback_throws w (AtProvider j) of
                   Some e \<Rightarrow> (Some e, tr')
                 | None \<Rightarrow> executeProviders rt w (Suc j) rest tr')))"

text \<open>The action part: \<open>runtime.processActions\<close>, then the cached result is traced.\<close>

definition executeAction ::
  "step_world \<Rightarrow> string option \<Rightarrow> trace_entry list \<Rightarrow> exn option \<times> trace_entry list" where
  "executeAction w act tr =
     (if truthy act then
        (case processActions_throws w of
           Some e \<Rightarrow> (Some e, tr)
         | None \<Rightarrow>
             (let result = (case cached_actionResults w of [] \<Rightarrow> None | r # _ \<Rightarrow> Some r);
                  ok = (case result of None \<Rightarrow> False
                        | Some r \<Rightarrow> (case cached_success r of None \<Rightarrow> False | Some b \<Rightarrow> b));
                  txt = (case result of None \<Rightarrow> None | Some r \<Rightarrow> cached_text r)
              in (None, tr @ [\<lparr>actionName = the act, success = ok, entry_text = txt,
                                entry_error = (if ok then None else txt)\<rparr>])))
      else (None, tr))"

definition tryBody ::
  "runtime \<Rightarrow> step_world \<Rightarrow> parsed_step \<Rightarrow> trace_entry list
     \<Rightarrow> exn option \<times> trace_entry list" where
  "tryBody rt w ps tr =
     (case executeProviders rt w 0 (providers ps) tr of
        (Some e, tr') \<Rightarrow> (Some e, tr')
      | (None, tr') \<Rightarrow> executeAction w (action ps) tr')"

text \<open>The entry pushed by the \<open>catch\<close> clause.\<close>

definition caught_entry :: "string option \<Rightarrow> exn \<Rightarrow> trace_entry" where
  "caught_entry act e =
     \<lparr>actionName = or_default act ''unknown'', success = False, entry_text = None,
      entry_error = Some e\<rparr>"

subsection \<open>One iteration, the loop, the summary\<close>

datatype step_exit = Continue | Break | Escape exn

definition parse_error_entry :: trace_entry where
  "parse_error_entry =
     \<lparr>actionName = ''parse_error'', success = False, entry_text = None,
      entry_error = Some ''Failed to parse step result''\<rparr>"

definition runIteration ::
  "runtime \<Rightarrow> step_world \<Rightarrow> nat \<Rightarrow> ms_state \<Rightarrow> step_exit \<times> ms_state" where
  "runIteration rt w i st =
     (let st1 = record_call (ComposeState (InStep i)) st in
      case composeState_throws w of
        Some e \<Rightarrow> (Escape e, st1)
      | None \<Rightarrow>
          (let st2 = record_call (UseModel (InStep i)) st1 in
           case useModel_throws w of
             Some e \<Rightarrow> (Escape e, st2)
           | None \<Rightarrow>
               (case parseKeyValueXml_result w of
                  None \<Rightarrow> (Break, push parse_error_entry st2)
                | Some ps \<Rightarrow>
                    if isFinish ps = FinishStr ''true'' \<or> isFinish ps = FinishBool True then
                      (case callback_throws w AtFinish of
                         Some e \<Rightarrow> (Escape e, st2)
                       | None \<Rightarrow> (Break, st2))
                    else if providers ps = [] \<and> \<not> truthy (action ps) then (Break, st2)
                    else
                      (case tryBody rt w ps (traceActionResult st2) of
                         (None, tr) \<Rightarrow> (Continue, st2\<lparr>traceActionResult := tr\<rparr>)
                       | (Some e, tr) \<Rightarrow>
                           (Continue,
                            st2\<lparr>traceActionResult := tr @ [caught_entry (action ps) e]\<rparr>)))))"

datatype loop_exit = Exited | Threw exn

text \<open>
  \<open>while (iterationCount < maxIterations) { iterationCount++; ... }\<close>. The result is how
  the loop was left, the final \<open>iterationCount\<close> and the state.
\<close>

function multiStepLoop ::
  "runtime \<Rightarrow> (nat \<Rightarrow> step_world) \<Rightarrow> int option \<Rightarrow> nat \<Rightarrow> ms_state
     \<Rightarrow> loop_exit \<times> nat \<times> ms_state" where
  "multiStepLoop rt W maxIterations iterationCount st =
     (if js_less iterationCount maxIterations then
        (case runIteration rt (W (Suc iterationCount)) (Suc iterationCount) st of
           (Continue, st') \<Rightarrow> multiStepLoop rt W maxIterations (Suc iterationCount) st'
         | (Break, st') \<Rightarrow> (Exited, Suc iterationCount, st')
         | (Escape e, st') \<Rightarrow> (Threw e, Suc iterationCount, st'))
      else (Exited, iterationCount, st))"
  by pat_completeness auto
termination
  by (relation "measure (\<lambda>(rt, W, m, i, st). case m of None \<Rightarrow> 0 | Some k \<Rightarrow> nat (k - int i))")
     (auto simp: js_less_def split: option.splits)

record response_content =
  content_actions :: "string list"
  content_text :: string
  content_thought :: string
  content_simple :: bool

text \<open>
  Of a response message the id, the entity id and the content are kept; the room id, the
  creation time and the composed state returned with the result play no part here.
\<close>

record response_memory =
  memory_id :: string
  memory_entityId :: string
  memory_content :: response_content

record cycle_result =
  responseContent :: "response_content option"
  responseMessages :: "response_memory list"
  mode :: string

definition maxIterations_of :: "runtime \<Rightarrow> int option" where
  "maxIterations_of rt = ceiling_of (parseInt (or_default (MAX_MULTISTEP_ITERATIONS rt) ''6''))"

text \<open>Everything after the final \<open>mockParseKeyValueXml(finalOutput)\<close>.\<close>

definition build_result :: "runtime \<Rightarrow> parsed_summary option \<Rightarrow> cycle_result" where
  "build_result rt summ =
     (let responseContent =
            (case summ of
               None \<Rightarrow> None
             | Some s \<Rightarrow>
                 if truthy (summary_text s) then
                   Some \<lparr>content_actions = [''REPLY''], content_text = the (summary_text s),
                         content_thought =
                           or_default (summary_thought s)
                             ''Final user-facing message after task completion.'',
                         content_simple = True\<rparr>
                 else None)
      in \<lparr>responseContent = responseContent,
          responseMessages =
            (case responseContent of
               None \<Rightarrow> []
             | Some c \<Rightarrow> [\<lparr>memory_id = ''test-response-id'', memory_entityId = agentId rt,
                           memory_content = c\<rparr>]),
          mode = (case responseContent of None \<Rightarrow> ''none'' | Some c \<Rightarrow> ''simple'')\<rparr>)"

definition summarize ::
  "runtime \<Rightarrow> summary_world \<Rightarrow> ms_state \<Rightarrow> cycle_result promise \<times> ms_state" where
  "summarize rt sw st =
     (let st1 = record_call (ComposeState InSummary) st in
      case summary_composeState_throws sw of
        Some e \<Rightarrow> (Rejected e, st1)
      | None \<Rightarrow>
          (let st2 = record_call (UseModel InSummary) st1 in
           case summary_useModel_throws sw of
             Some e \<Rightarrow> (Rejected e, st2)
           | None \<Rightarrow> (Resolved (build_result rt (summary_parse_result sw)), st2)))"

definition initial_state :: ms_state where
  "initial_state = \<lparr>traceActionResult = [], calls = []\<rparr>"

definition runMultiStepCoreTest ::
  "runtime \<Rightarrow> outside_world \<Rightarrow> cycle_result promise \<times> ms_state" where
  "runMultiStepCoreTest rt wd =
     (case multiStepLoop rt (step_at wd) (maxIterations_of rt) 0 initial_state of
        (Threw e, n, st) \<Rightarrow> (Rejected e, st)
      | (Exited, n, st) \<Rightarrow> summarize rt (summary wd) st)"

text \<open>What is read off the record of calls.\<close>

fun is_step_compose :: "call \<Rightarrow> bool" where
  "is_step_compose (ComposeState (InStep i)) = True"
| "is_step_compose c = False"

definition iterations_run :: "ms_state \<Rightarrow> nat" where
  "iterations_run st = length (filter is_step_compose (calls st))"


subsection \<open>Concrete runtimes and worlds\<close>


definition quiet_step :: step_world where
  "quiet_step =
     \<lparr>composeState_throws = None, useModel_throws = None, parseKeyValueXml_result = None,
      provider_get_at = (\<lambda>j name. GetResult (Some ''Provider result'') None),
      callback_throws = (\<lambda>s. None), processActions_throws = None,
      cached_actionResults = []\<rparr>"

definition quiet_summary :: summary_world where
  "quiet_summary =
     \<lparr>summary_composeState_throws = None, summary_useModel_throws = None,
      summary_parse_result = None\<rparr>"

definition test_runtime :: "string option \<Rightarrow> runtime" where
  "test_runtime setting =
     \<lparr>agentId = ''test-agent-id'', registered_providers = [''TEST_PROVIDER'', ''ANOTHER_PROVIDER''],
      MAX_MULTISTEP_ITERATIONS = setting\<rparr>"

definition never_finishing_step :: parsed_step where
  "never_finishing_step =
     \<lparr>thought = Some ''Step that never finishes'', providers = [''TEST_PROVIDER''],
      action = None, isFinish = FinishBool False\<rparr>"


definition final_summary :: parsed_summary where
  "final_summary =
     \<lparr>summary_text = Some ''Final response to user'',
      summary_thought = Some ''Task completed successfully''\<rparr>"

definition finishing_step :: parsed_step where
  "finishing_step =
     \<lparr>thought = Some ''Final step thought'', providers = [], action = None,
      isFinish = FinishBool True\<rparr>"

definition successful_world :: outside_world where
  "successful_world =
     \<lparr>step_at = (\<lambda>i. quiet_step\<lparr>parseKeyValueXml_result :=
                  Some (if i = 1 then never_finishing_step else finishing_step)\<rparr>),
      summary = quiet_summary\<lparr>summary_parse_result := Some final_summary\<rparr>\<rparr>"

definition unparsable_first_world :: outside_world where
  "unparsable_first_world =
     \<lparr>step_at = (\<lambda>i. quiet_step\<lparr>parseKeyValueXml_result :=
                  (if i = 1 then None else Some never_finishing_step)\<rparr>),
      summary = quiet_summary\<lparr>summary_parse_result := Some final_summary\<rparr>\<rparr>"





section \<open>World settings (\<open>getWorldSettings\<close>, \<open>updateWorldSettings\<close>, \<open>processSettingUpdates\<close>)\<close>

subsection \<open>Data\<close>

text \<open>The value of a setting or of an update: \<open>string | boolean\<close>.\<close>

datatype setting_val = StrVal string | BoolVal bool

text \<open>
  A \<open>Setting\<close>. \<open>setting_value\<close> is \<open>None\<close> for \<open>null\<close>; \<open>dependsOn\<close> and
  \<open>onSetAction\<close> are optional. \<open>onSetAction\<close> is code of the setting's owner: it may
  throw, and otherwise returns a message or nothing.
\<close>

record setting =
  setting_name :: string
  setting_required :: bool
  setting_value :: "setting_val option"
  dependsOn :: "string list option"
  onSetAction :: "(setting_val \<Rightarrow> exn + string option) option"


type_synonym world_settings = "string \<Rightarrow> setting option"

record world_metadata =
  settings :: "world_settings option"
  other_metadata :: "(string \<times> string) list"

record World =
  world_id :: string
  metadata :: "world_metadata option"

text \<open>
  The runtime with its storage. Storage is available or not per call: the \<open>n\<close>-th storage
  call made on this runtime throws \<open>e\<close> when \<open>storage_fault n = Some e\<close>. \<open>error_log\<close>
  holds the lines written with \<open>logger.error\<close>.
\<close>

record storage_runtime = runtime +
  worlds :: "string \<Rightarrow> World option"
  storage_fault :: "nat \<Rightarrow> exn option"
  storage_calls :: nat
  error_log :: "string list"

definition logger_error :: "string \<Rightarrow> storage_runtime \<Rightarrow> storage_runtime" where
  "logger_error line rt = rt\<lparr>error_log := error_log rt @ [line]\<rparr>"

text \<open>\<open>runtime.getWorld(id)\<close> and \<open>runtime.updateWorld(world)\<close>.\<close>

definition getWorld ::
  "storage_runtime \<Rightarrow> string \<Rightarrow> (exn + World option) \<times> storage_runtime" where
  "getWorld rt wid =
     (let rt' = rt\<lparr>storage_calls := Suc (storage_calls rt)\<rparr> in
      case storage_fault rt (storage_calls rt) of
        Some e \<Rightarrow> (Inl e, rt')
      | None \<Rightarrow> (Inr (worlds rt wid), rt'))"

definition updateWorld ::
  "storage_runtime \<Rightarrow> World \<Rightarrow> (exn + unit) \<times> storage_runtime" where
  "updateWorld rt w =
     (let rt' = rt\<lparr>storage_calls := Suc (storage_calls rt)\<rparr> in
      case storage_fault rt (storage_calls rt) of
        Some e \<Rightarrow> (Inl e, rt')
      | None \<Rightarrow> (Inr (), rt'\<lparr>worlds := (worlds rt)(world_id w \<mapsto> w)\<rparr>))"

text \<open>The text of \<open>${error}\<close> for a thrown \<open>Error\<close> with message \<open>e\<close>.\<close>

definition error_string :: "exn \<Rightarrow> string" where
  "error_string e = ''Error: '' @ e"

subsection \<open>\<open>getWorldSettings\<close> and \<open>updateWorldSettings\<close>\<close>

text \<open>
  \<open>createUniqueUuid\<close> is imported from the core package and is a parameter \<open>cu\<close> here,
  applied to the agent id of the runtime and the server id. Each function is its \<open>try\<close>
  block followed by its \<open>catch\<close> clause.
\<close>

definition getWorldSettings_try ::
  "(string \<Rightarrow> string \<Rightarrow> string) \<Rightarrow> storage_runtime \<Rightarrow> string
     \<Rightarrow> (exn + world_settings option) \<times> storage_runtime" where
  "getWorldSettings_try cu rt serverId =
     (let worldId = cu (agentId rt) serverId in
      case getWorld rt worldId of
        (Inl e, rt') \<Rightarrow> (Inl e, rt')
      | (Inr None, rt') \<Rightarrow> (Inr None, rt')
      | (Inr (Some w), rt') \<Rightarrow>
          (case metadata w of
             None \<Rightarrow> (Inr None, rt')
           | Some md \<Rightarrow> (Inr (settings md), rt')))"

definition getWorldSettings ::
  "(string \<Rightarrow> string \<Rightarrow> string) \<Rightarrow> storage_runtime \<Rightarrow> string
     \<Rightarrow> world_settings option promise \<times> storage_runtime" where
  "getWorldSettings cu rt serverId =
     (case getWorldSettings_try cu rt serverId of
        (Inr r, rt') \<Rightarrow> (Resolved r, rt')
      | (Inl e, rt') \<Rightarrow>
          (Resolved None,
           logger_error (''Error getting settings state: '' @ error_string e) rt'))"

definition updateWorldSettings_try ::
  "(string \<Rightarrow> string \<Rightarrow> string) \<Rightarrow> storage_runtime \<Rightarrow> string \<Rightarrow> world_settings
     \<Rightarrow> (exn + bool) \<times> storage_runtime" where
  "updateWorldSettings_try cu rt serverId worldSettings =
     (let worldId = cu (agentId rt) serverId in
      case getWorld rt worldId of
        (Inl e, rt') \<Rightarrow> (Inl e, rt')
      | (Inr None, rt') \<Rightarrow>
          (Inr False, logger_error (''No world found for server '' @ serverId) rt')
      | (Inr (Some w), rt') \<Rightarrow>
          (let md = (case metadata w of
                       None \<Rightarrow> \<lparr>settings = None, other_metadata = []\<rparr>
                     | Some m \<Rightarrow> m);
               w' = w\<lparr>metadata := Some (md\<lparr>settings := Some worldSettings\<rparr>)\<rparr>
           in case updateWorld rt' w' of
                (Inl e, rt'') \<Rightarrow> (Inl e, rt'')
              | (Inr u, rt'') \<Rightarrow> (Inr True, rt'')))"

definition updateWorldSettings ::
  "(string \<Rightarrow> string \<Rightarrow> string) \<Rightarrow> storage_runtime \<Rightarrow> string \<Rightarrow> world_settings
     \<Rightarrow> bool promise \<times> storage_runtime" where
  "updateWorldSettings cu rt serverId worldSettings =
     (case updateWorldSettings_try cu rt serverId worldSettings of
        (Inr b, rt') \<Rightarrow> (Resolved b, rt')
      | (Inl e, rt') \<Rightarrow>
          (Resolved False,
           logger_error (''Error updating settings state: '' @ error_string e) rt'))"

subsection \<open>\<open>processSettingUpdates\<close>\<close>













subsection \<open>Concrete settings and runtimes\<close>

definition join_ids :: "string \<Rightarrow> string \<Rightarrow> string" where
  "join_ids agent server = server @ '':'' @ agent"

definition setting_A :: setting where
  "setting_A =
     \<lparr>setting_name = ''Setting A'', setting_required = True, setting_value = None,
      dependsOn = Some [''B''], onSetAction = None\<rparr>"

definition setting_B :: setting where
  "setting_B =
     \<lparr>setting_name = ''Setting B'', setting_required = True, setting_value = None,
      dependsOn = None, onSetAction = None\<rparr>"

definition settings_A_only :: world_settings where
  "settings_A_only = [''A'' \<mapsto> setting_A]"

definition settings_A_B :: world_settings where
  "settings_A_B = [''A'' \<mapsto> setting_A, ''B'' \<mapsto> setting_B]"



definition server_world :: World where
  "server_world =
     \<lparr>world_id = join_ids ''test-agent-id'' ''server-1'',
      metadata = Some \<lparr>settings = Some settings_A_B, other_metadata = []\<rparr>\<rparr>"

definition storage_with :: "(nat \<Rightarrow> exn option) \<Rightarrow> storage_runtime" where
  "storage_with fault =
     \<lparr>agentId = ''test-agent-id'', registered_providers = [],
      MAX_MULTISTEP_ITERATIONS = None,
      worlds = [join_ids ''test-agent-id'' ''server-1'' \<mapsto> server_world],
      storage_fault = fault, storage_calls = 0, error_log = []\<rparr>"

definition storage_down :: "nat \<Rightarrow> exn option" where
  "storage_down n = Some ''connection refused''"


definition fails_second :: "nat \<Rightarrow> exn option" where
  "fails_second n = (if n = 1 then Some ''disk full'' else None)"


section \<open>The scenario evaluation engine (\<open>EvaluationEngine\<close>)\<close>

subsection \<open>Builtins\<close>

text \<open>\<open>String.prototype.includes\<close>: the argument occurs as a substring.\<close>

fun js_includes :: "string \<Rightarrow> string \<Rightarrow> bool" where
  "js_includes [] sub = (sub = [])"
| "js_includes (c # cs) sub = (take (length sub) (c # cs) = sub \<or> js_includes cs sub)"

text \<open>Template text of a boolean and of an integer number.\<close>

definition show_bool :: "bool \<Rightarrow> string" where
  "show_bool b = (if b then ''true'' else ''false'')"

function show_nat :: "nat \<Rightarrow> string" where
  "show_nat n =
     (if n < 10 then [char_of (48 + n)]
      else show_nat (n div 10) @ [char_of (48 + n mod 10)])"
  by pat_completeness auto
termination
  by (relation "measure (\<lambda>n. n)") auto

definition show_int :: "int \<Rightarrow> string" where
  "show_int i = (if i < 0 then ''-'' @ show_nat (nat (- i)) else show_nat (nat i))"

text \<open>\<open>toLowerCase\<close> on ASCII letters, and \<open>replace(/_/g, '')\<close>.\<close>

definition toLowerCase :: "string \<Rightarrow> string" where
  "toLowerCase s =
     map (\<lambda>c. if 65 \<le> (of_char c :: nat) \<and> (of_char c :: nat) \<le> 90
               then char_of ((of_char c :: nat) + 32) else c) s"

definition remove_underscores :: "string \<Rightarrow> string" where
  "remove_underscores s = filter (\<lambda>c. c \<noteq> CHR ''_'') s"

definition dquote :: string where
  "dquote = [CHR 0x22]"

definition squote :: string where
  "squote = [CHR 0x27]"

subsection \<open>Data\<close>

text \<open>
  An evaluation request. \<open>eval_type\<close> is its \<open>type\<close> tag; the other fields are the
  parameters the evaluators modelled here read (\<open>value\<close>, \<open>pattern\<close>, \<open>path\<close>,
  \<open>action\<close>, the duration bounds); \<open>other_params\<close> stands for the rest.
\<close>

record evaluation =
  eval_type :: string
  eval_value :: string
  eval_pattern :: string
  eval_path :: string
  eval_action :: string
  max_duration_ms :: int
  min_duration_ms :: "int option"
  target_duration_ms :: "int option"
  other_params :: "(string \<times> string) list"

record execution_result =
  exitCode :: int
  stdout :: string
  stderr :: string
  files :: "(string \<times> string) list"
  startedAtMs :: "int option"
  endedAtMs :: "int option"
  durationMs :: "int option"

record evaluation_result =
  eval_success :: bool
  eval_message :: string

type_synonym evaluator = "evaluation \<Rightarrow> execution_result \<Rightarrow> exn + evaluation_result"

text \<open>
  A memory row as the trajectory evaluator reads it; \<open>None\<close> in the list of memories is a
  row that is \<open>null\<close> or whose content is not an object.
\<close>

record memory_row =
  content_type :: "string option"
  metadata_type :: "string option"
  content_actionName :: "string option"
  metadata_actionName :: "string option"
  content_actionStatus :: "string option"
  content_error :: "string option"

text \<open>
  What the engine gets from outside: the builtin \<open>new RegExp(pattern, 'i')\<close>, which
  throws a \<open>SyntaxError\<close> on a malformed pattern and otherwise gives the \<open>test\<close>
  function; \<open>runtime.getMemories\<close>; and the evaluators whose code is not modelled here
  (\<open>LLMJudgeEvaluator\<close>, which calls the model, and the four conversation evaluators,
  imported from another module).
\<close>

record engine_world =
  RegExp_new :: "string \<Rightarrow> exn + (string \<Rightarrow> bool)"
  getMemories :: "exn + memory_row option list"
  LLMJudgeEvaluator :: evaluator
  ConversationLengthEvaluator :: evaluator
  ConversationFlowEvaluator :: evaluator
  UserSatisfactionEvaluator :: evaluator
  ContextRetentionEvaluator :: evaluator

subsection \<open>The evaluators\<close>

definition mismatched :: "string \<Rightarrow> string \<Rightarrow> exn" where
  "mismatched expected received =
     ''Mismatched evaluator: expected '' @ squote @ expected @ squote @ '', received ''
       @ squote @ received @ squote"

definition StringContainsEvaluator :: evaluator where
  "StringContainsEvaluator params runResult =
     (if eval_type params \<noteq> ''string_contains''
      then Inl (mismatched ''string_contains'' (eval_type params))
      else
        (let success = js_includes (stdout runResult) (eval_value params) in
         Inr \<lparr>eval_success = success,
              eval_message = ''Checked if stdout contains '' @ dquote @ eval_value params
                @ dquote @ ''. Result: '' @ show_bool success\<rparr>))"

definition RegexMatchEvaluator :: "engine_world \<Rightarrow> evaluator" where
  "RegexMatchEvaluator w params runResult =
     (if eval_type params \<noteq> ''regex_match''
      then Inl (mismatched ''regex_match'' (eval_type params))
      else
        (case RegExp_new w (eval_pattern params) of
           Inl e \<Rightarrow> Inl e
         | Inr test \<Rightarrow>
             (let success = test (stdout runResult) in
              Inr \<lparr>eval_success = success,
                   eval_message = ''Checked if stdout matches regex '' @ dquote
                     @ eval_pattern params @ dquote @ ''. Result: '' @ show_bool success\<rparr>)))"

definition strip_dot_slash :: "string \<Rightarrow> string" where
  "strip_dot_slash p = (if take 2 p = ''./'' then drop 2 p else p)"

definition FileExistsEvaluator :: evaluator where
  "FileExistsEvaluator params runResult =
     (if eval_type params \<noteq> ''file_exists''
      then Inl (mismatched ''file_exists'' (eval_type params))
      else
        (let filePaths = map fst (files runResult);
             success = (eval_path params \<in> set filePaths
                        \<or> (''./'' @ eval_path params) \<in> set filePaths
                        \<or> strip_dot_slash (eval_path params) \<in> set filePaths)
         in Inr \<lparr>eval_success = success,
                 eval_message = ''Checked if file '' @ dquote @ eval_path params @ dquote
                   @ '' exists. Result: '' @ show_bool success\<rparr>))"

text \<open>
  Durations are integers here, so the branch for a \<open>NaN\<close> duration (``No timing
  information'') is not reachable and is left out.
\<close>

definition show_optional :: "int option \<Rightarrow> string" where
  "show_optional v = (case v of None \<Rightarrow> ''-'' | Some i \<Rightarrow> show_int i)"

definition ExecutionTimeEvaluator :: evaluator where
  "ExecutionTimeEvaluator params runResult =
     (if eval_type params \<noteq> ''execution_time''
      then Inl (mismatched ''execution_time'' (eval_type params))
      else
        (let duration =
               (case durationMs runResult of
                  Some d \<Rightarrow> d
                | None \<Rightarrow>
                    (case endedAtMs runResult of None \<Rightarrow> 0 | Some t \<Rightarrow> t)
                      - (case startedAtMs runResult of None \<Rightarrow> 0 | Some t \<Rightarrow> t));
             tooSlow = (duration > max_duration_ms params);
             tooFast = (case min_duration_ms params of None \<Rightarrow> False | Some m \<Rightarrow> duration < m);
             success = (\<not> tooSlow \<and> \<not> tooFast)
         in Inr \<lparr>eval_success = success,
                 eval_message = ''Execution time '' @ show_int duration @ ''ms (min=''
                   @ show_optional (min_duration_ms params) @ '', target=''
                   @ show_optional (target_duration_ms params) @ '', max=''
                   @ show_int (max_duration_ms params) @ '')''\<rparr>))"

definition normalize :: "string option \<Rightarrow> string" where
  "normalize name =
     (case name of None \<Rightarrow> [] | Some n \<Rightarrow> remove_underscores (toLowerCase n))"

definition is_action_result :: "memory_row option \<Rightarrow> bool" where
  "is_action_result mem =
     (case mem of
        None \<Rightarrow> False
      | Some m \<Rightarrow>
          content_type m = Some ''action_result''
          \<or> metadata_type m = Some ''action_result''
          \<or> (content_type m = Some ''agent''
              \<and> (truthy (content_actionName m) \<or> truthy (metadata_actionName m))))"

definition matches_action :: "string \<Rightarrow> memory_row option \<Rightarrow> bool" where
  "matches_action target mem =
     (case mem of
        None \<Rightarrow> False
      | Some m \<Rightarrow>
          normalize (content_actionName m) = target
          \<or> normalize (metadata_actionName m) = target)"

text \<open>The \<open>try\<close> block of the trajectory evaluator (the two-second wait is left out).\<close>

definition trajectory_try :: "engine_world \<Rightarrow> evaluation \<Rightarrow> exn + evaluation_result" where
  "trajectory_try w params =
     (case getMemories w of
        Inl e \<Rightarrow> Inl e
      | Inr actionMemories \<Rightarrow>
          (let actionResults = filter is_action_result actionMemories;
               target = normalize (Some (eval_action params))
           in case find (matches_action target) actionResults of
                None \<Rightarrow>
                  Inr \<lparr>eval_success = False,
                       eval_message = ''Action '' @ squote @ eval_action params @ squote
                         @ '' was not found in the execution trajectory''\<rparr>
              | Some None \<Rightarrow>
                  Inr \<lparr>eval_success = False,
                       eval_message = ''Action '' @ squote @ eval_action params @ squote
                         @ '' was not found in the execution trajectory''\<rparr>
              | Some (Some m) \<Rightarrow>
                  (let actionStatus = or_default (content_actionStatus m) ''unknown''
                   in Inr \<lparr>eval_success = True,
                           eval_message =
                             (if actionStatus = ''completed''
                              then ''Action '' @ squote @ eval_action params @ squote
                                     @ '' was executed successfully''
                              else ''Action '' @ squote @ eval_action params @ squote
                                     @ '' was executed but failed: ''
                                     @ or_default (content_error m) ''Unknown error'')\<rparr>)))"

definition TrajectoryContainsActionEvaluator :: "engine_world \<Rightarrow> evaluator" where
  "TrajectoryContainsActionEvaluator w params runResult =
     (if eval_type params \<noteq> ''trajectory_contains_action''
      then Inl (mismatched ''trajectory_contains_action'' (eval_type params))
      else
        (case trajectory_try w params of
           Inr r \<Rightarrow> Inr r
         | Inl e \<Rightarrow>
             Inr \<lparr>eval_success = False,
                  eval_message = ''Failed to check action trajectory: '' @ e\<rparr>))"

subsection \<open>The engine\<close>

definition register ::
  "string \<Rightarrow> evaluator \<Rightarrow> (string \<Rightarrow> evaluator option) \<Rightarrow> (string \<Rightarrow> evaluator option)" where
  "register type evaluator evaluators = evaluators(type \<mapsto> evaluator)"

text \<open>The map \<open>this.evaluators\<close> as the constructor leaves it.\<close>

definition evaluators :: "engine_world \<Rightarrow> (string \<Rightarrow> evaluator option)" where
  "evaluators w =
     (register ''context_retention'' (ContextRetentionEvaluator w)
     (register ''user_satisfaction'' (UserSatisfactionEvaluator w)
     (register ''conversation_flow'' (ConversationFlowEvaluator w)
     (register ''conversation_length'' (ConversationLengthEvaluator w)
     (register ''execution_time'' ExecutionTimeEvaluator
     (register ''llm_judge'' (LLMJudgeEvaluator w)
     (register ''trajectory_contains_action'' (TrajectoryContainsActionEvaluator w)
     (register ''file_exists'' FileExistsEvaluator
     (register ''regex_match'' (RegexMatchEvaluator w)
     (register ''string_contains'' StringContainsEvaluator Map.empty))))))))))"

text \<open>One turn of the loop of \<open>runEvaluations\<close>: what is pushed, or what is thrown.\<close>

definition evaluate_one ::
  "(string \<Rightarrow> evaluator option) \<Rightarrow> execution_result \<Rightarrow> evaluation
     \<Rightarrow> exn + evaluation_result" where
  "evaluate_one evs runResult evaluation =
     (case evs (eval_type evaluation) of
        None \<Rightarrow>
          Inr \<lparr>eval_success = False,
               eval_message = ''Unknown evaluator type: '' @ squote @ eval_type evaluation
                 @ squote\<rparr>
      | Some evaluator \<Rightarrow> evaluator evaluation runResult)"

fun runEvaluations_loop ::
  "(string \<Rightarrow> evaluator option) \<Rightarrow> execution_result \<Rightarrow> evaluation list
     \<Rightarrow> evaluation_result list \<Rightarrow> exn + evaluation_result list" where
  "runEvaluations_loop evs runResult [] results = Inr results"
| "runEvaluations_loop evs runResult (evaluation # rest) results =
     (case evaluate_one evs runResult evaluation of
        Inl e \<Rightarrow> Inl e
      | Inr result \<Rightarrow> runEvaluations_loop evs runResult rest (results @ [result]))"

definition runEvaluations_with ::
  "(string \<Rightarrow> evaluator option) \<Rightarrow> evaluation list \<Rightarrow> execution_result
     \<Rightarrow> evaluation_result list promise" where
  "runEvaluations_with evs evaluations runResult =
     (case runEvaluations_loop evs runResult evaluations [] of
        Inl e \<Rightarrow> Rejected e
      | Inr results \<Rightarrow> Resolved results)"

definition runEvaluations ::
  "engine_world \<Rightarrow> evaluation list \<Rightarrow> execution_result \<Rightarrow> evaluation_result list promise" where
  "runEvaluations w evaluations runResult =
     runEvaluations_with (evaluators w) evaluations runResult"

definition returns :: "exn + 'a \<Rightarrow> bool" where
  "returns r = (case r of Inl e \<Rightarrow> False | Inr v \<Rightarrow> True)"

subsection \<open>Concrete requests and worlds\<close>

definition request :: "string \<Rightarrow> evaluation" where
  "request t =
     \<lparr>eval_type = t, eval_value = ''hello'', eval_pattern = ''('', eval_path = ''out.txt'',
      eval_action = ''REPLY'', max_duration_ms = 1000, min_duration_ms = None,
      target_duration_ms = None, other_params = []\<rparr>"

definition run_result :: execution_result where
  "run_result =
     \<lparr>exitCode = 0, stdout = ''say hello world'', stderr = '''', files = [(''./out.txt'', ''x'')],
      startedAtMs = Some 100, endedAtMs = Some 350, durationMs = None\<rparr>"

definition always_passes :: evaluator where
  "always_passes params runResult = Inr \<lparr>eval_success = True, eval_message = ''ok''\<rparr>"

text \<open>
  A world in which the pattern \<open>(\<close> is rejected by \<open>RegExp\<close> (an unterminated group), as
  it is by every JavaScript engine, and in which the memory store cannot be read.
\<close>

definition strict_world :: engine_world where
  "strict_world =
     \<lparr>RegExp_new = (\<lambda>p. if p = ''(''
                          then Inl ''Invalid regular expression: /(/i: Unterminated group''
                          else Inr (\<lambda>s. js_includes (toLowerCase s) (toLowerCase p))),
      getMemories = Inl ''database closed'',
      LLMJudgeEvaluator = always_passes, ConversationLengthEvaluator = always_passes,
      ConversationFlowEvaluator = always_passes, UserSatisfactionEvaluator = always_passes,
      ContextRetentionEvaluator = always_passes\<rparr>"

section \<open>Message ingestion (\<open>POST /ingest-external\<close>)\<close>

subsection \<open>Data\<close>

text \<open>
  The request body, a \<open>Partial<MessageService>\<close>: every field may be absent. Raw
  message and metadata are opaque and kept as text.
\<close>

record message_payload =
  channel_id :: "string option"
  server_id :: "string option"
  author_id :: "string option"
  author_display_name :: "string option"
  payload_content :: "string option"
  raw_message :: "string option"
  source_id :: "string option"
  source_type :: "string option"
  in_reply_to_message_id :: "string option"
  payload_metadata :: "string option"

text \<open>The argument of \<open>createMessage\<close> (\<open>messageToCreate\<close>).\<close>

record message_data =
  channelId :: string
  authorId :: string
  msg_content :: string
  rawMessage :: "string option"
  sourceId :: "string option"
  sourceType :: "string option"
  inReplyToRootMessageId :: "string option"
  msg_metadata :: "string option"

text \<open>A stored root message: the data with the generated id and creation time.\<close>

record central_message = message_data +
  msg_id :: string
  createdAt :: nat

text \<open>The message put on the internal bus (\<open>messageForBus\<close>).\<close>

record bus_message =
  bus_id :: string
  bus_channel_id :: string
  bus_server_id :: string
  bus_author_id :: string
  bus_author_display_name :: "string option"
  bus_content :: string
  bus_raw_message :: "string option"
  bus_source_id :: "string option"
  bus_source_type :: "string option"
  bus_in_reply_to_message_id :: "string option"
  bus_created_at :: nat
  bus_metadata :: "string option"

text \<open>
  The server instance with the message store, the internal bus (the \<open>new_message\<close>
  events emitted so far) and the error log. The \<open>n\<close>-th call of \<open>createMessage\<close> throws
  \<open>e\<close> when \<open>create_fault n = Some e\<close>: storage is available or not per call.
\<close>

record agent_server =
  stored_messages :: "central_message list"
  create_calls :: nat
  create_fault :: "nat \<Rightarrow> exn option"
  clock :: nat
  internalMessageBus :: "bus_message list"
  server_error_log :: "string list"

record http_response =
  http_status :: nat
  json_success :: bool
  json_error :: "string option"
  json_messageId :: "string option"

subsection \<open>Storage\<close>

text \<open>
  Modelled from the spec: \<open>AgentServer.createMessage\<close> is not among the source files;
  only its calls are. The spec makes creation idempotent, keyed by the source message id
  (submitting the same external message id twice produces exactly one stored record with
  that source id), has stored records immutable, timestamped and append-only, and lets
  each storage call succeed or fail on its own. So \<open>createMessage\<close> returns the stored
  message that already carries the source id of its argument when there is one; otherwise
  it appends one record holding the data, a fresh id and the current time, and returns
  it. It throws when storage is unavailable for this call.
\<close>

definition stored_with_source ::
  "agent_server \<Rightarrow> string option \<Rightarrow> central_message option" where
  "stored_with_source s source =
     (case source of
        None \<Rightarrow> None
      | Some sid \<Rightarrow> find (\<lambda>m. sourceId m = Some sid) (stored_messages s))"

definition createMessage ::
  "agent_server \<Rightarrow> message_data \<Rightarrow> (exn + central_message) \<times> agent_server" where
  "createMessage s d =
     (let s' = s\<lparr>create_calls := Suc (create_calls s)\<rparr> in
      case create_fault s (create_calls s) of
        Some e \<Rightarrow> (Inl e, s')
      | None \<Rightarrow>
          (case stored_with_source s (sourceId d) of
             Some existing \<Rightarrow> (Inr existing, s')
           | None \<Rightarrow>
               (let m = \<lparr>channelId = channelId d, authorId = authorId d,
                         msg_content = msg_content d, rawMessage = rawMessage d,
                         sourceId = sourceId d, sourceType = sourceType d,
                         inReplyToRootMessageId = inReplyToRootMessageId d,
                         msg_metadata = msg_metadata d,
                         msg_id = ''message-'' @ show_nat (create_calls s),
                         createdAt = clock s\<rparr>
                in (Inr m, s'\<lparr>stored_messages := stored_messages s @ [m]\<rparr>))))"

subsection \<open>The handler\<close>

text \<open>
  \<open>validateUuid\<close> is imported from the core package and is a parameter \<open>vu\<close>: it
  returns the id when it is a well-formed UUID and \<open>null\<close> otherwise. The broadcast to
  SocketIO, which only informs GUI clients, is left out.
\<close>

definition ingest_external ::
  "(string \<Rightarrow> string option) \<Rightarrow> agent_server \<Rightarrow> message_payload
     \<Rightarrow> http_response \<times> agent_server" where
  "ingest_external vu s messagePayload =
     (if \<not> truthy (channel_id messagePayload) \<or> \<not> truthy (server_id messagePayload)
         \<or> \<not> truthy (author_id messagePayload) \<or> \<not> truthy (payload_content messagePayload)
      then
        (\<lparr>http_status = 400, json_success = False,
          json_error = Some ''Invalid external message payload'', json_messageId = None\<rparr>, s)
      else
        (let messageToCreate =
               \<lparr>channelId = the (channel_id messagePayload),
                authorId = the (author_id messagePayload),
                msg_content = the (payload_content messagePayload),
                rawMessage = raw_message messagePayload,
                sourceId = source_id messagePayload,
                sourceType = source_type messagePayload,
                inReplyToRootMessageId =
                  (if truthy (in_reply_to_message_id messagePayload)
                   then vu (the (in_reply_to_message_id messagePayload)) else None),
                msg_metadata = payload_metadata messagePayload\<rparr>
         in case createMessage s messageToCreate of
              (Inl e, s') \<Rightarrow>
                (\<lparr>http_status = 500, json_success = False,
                  json_error = Some ''Failed to ingest message'', json_messageId = None\<rparr>,
                 s'\<lparr>server_error_log := server_error_log s'
                       @ [''[Messages Router /ingest-external] Error ingesting external message: ''
                            @ e]\<rparr>)
            | (Inr createdRootMessage, s') \<Rightarrow>
                (let messageForBus =
                       \<lparr>bus_id = msg_id createdRootMessage,
                        bus_channel_id = channelId createdRootMessage,
                        bus_server_id = the (server_id messagePayload),
                        bus_author_id = authorId createdRootMessage,
                        bus_author_display_name = author_display_name messagePayload,
                        bus_content = msg_content createdRootMessage,
                        bus_raw_message = rawMessage createdRootMessage,
                        bus_source_id = sourceId createdRootMessage,
                        bus_source_type = sourceType createdRootMessage,
                        bus_in_reply_to_message_id = inReplyToRootMessageId createdRootMessage,
                        bus_created_at = createdAt createdRootMessage,
                        bus_metadata = msg_metadata createdRootMessage\<rparr>
                 in (\<lparr>http_status = 202, json_success = True, json_error = None,
                      json_messageId = Some (msg_id createdRootMessage)\<rparr>,
                     s'\<lparr>internalMessageBus := internalMessageBus s' @ [messageForBus]\<rparr>))))"

text \<open>The stored messages that carry a given source id.\<close>

definition with_source :: "string \<Rightarrow> agent_server \<Rightarrow> central_message list" where
  "with_source sid s = filter (\<lambda>m. sourceId m = Some sid) (stored_messages s)"

subsection \<open>A concrete server and payload\<close>

definition empty_server :: agent_server where
  "empty_server =
     \<lparr>stored_messages = [], create_calls = 0, create_fault = (\<lambda>n. None), clock = 1000,
      internalMessageBus = [], server_error_log = []\<rparr>"

definition discord_payload :: message_payload where
  "discord_payload =
     \<lparr>channel_id = Some ''11111111-1111-4111-8111-111111111111'',
      server_id = Some ''00000000-0000-0000-0000-000000000000'',
      author_id = Some ''22222222-2222-4222-8222-222222222222'',
      author_display_name = Some ''alice'',
      payload_content = Some ''hello agent'',
      raw_message = None,
      source_id = Some ''discord-msg-1'',
      source_type = Some ''discord'',
      in_reply_to_message_id = None,
      payload_metadata = None\<rparr>"

definition accept_all :: "string \<Rightarrow> string option" where
  "accept_all u = Some u"

text \<open>The same external message delivered a second time, with another display name.\<close>

definition discord_payload_again :: message_payload where
  "discord_payload_again = discord_payload\<lparr>author_display_name := Some ''Alice B.''\<rparr>"

section \<open>The PGlite adapter (\<open>PgliteDatabaseAdapter\<close>)\<close>

text \<open>
  The adapter holds its client manager, of which only \<open>isShuttingDown()\<close> is read, and
  the database connection, whose state is left abstract (\<open>'db\<close>). \<open>warn_log\<close> holds the
  lines written with \<open>logger.warn\<close>. A database operation is a function from the
  database state to its outcome and the new database state; \<open>None\<close> is \<open>null\<close>.
\<close>

record 'db pglite_adapter =
  isShuttingDown :: bool
  database :: 'db
  warn_log :: "string list"

type_synonym ('db, 'a) db_operation = "'db \<Rightarrow> 'a option promise \<times> 'db"

definition withDatabase ::
  "'db pglite_adapter \<Rightarrow> ('db, 'a) db_operation \<Rightarrow> 'a option promise \<times> 'db pglite_adapter" where
  "withDatabase a operation =
     (if isShuttingDown a then
        (Resolved None, a\<lparr>warn_log := warn_log a @ [''Database is shutting down'']\<rparr>)
      else
        (case operation (database a) of (r, db') \<Rightarrow> (r, a\<lparr>database := db'\<rparr>)))"

definition isReady :: "'db pglite_adapter \<Rightarrow> bool promise" where
  "isReady a = Resolved (\<not> isShuttingDown a)"

text \<open>Adapter operations issued one after the other, each through \<open>withDatabase\<close>.\<close>

fun withDatabase_all ::
  "'db pglite_adapter \<Rightarrow> ('db, 'a) db_operation list
     \<Rightarrow> 'a option promise list \<times> 'db pglite_adapter" where
  "withDatabase_all a [] = ([], a)"
| "withDatabase_all a (operation # rest) =
     (case withDatabase a operation of
        (r, a') \<Rightarrow> (case withDatabase_all a' rest of (rs, a'') \<Rightarrow> (r # rs, a'')))"

text \<open>A database that counts the statements run on it, and an operation that runs one.\<close>

definition count_rows :: "(nat, string) db_operation" where
  "count_rows db = (Resolved (Some ''42''), Suc db)"

definition closing_adapter :: "nat pglite_adapter" where
  "closing_adapter = \<lparr>isShuttingDown = True, database = 0, warn_log = []\<rparr>"

definition open_adapter :: "nat pglite_adapter" where
  "open_adapter = \<lparr>isShuttingDown = False, database = 0, warn_log = []\<rparr>"

section \<open>Properties of the multi-step loop\<close>














lemma run_resolved:
  assumes "runMultiStepCoreTest rt wd = (Resolved r, st)"
  shows "r = build_result rt (summary_parse_result (summary wd))"
  using assms
  by (auto simp: runMultiStepCoreTest_def summarize_def Let_def
        split: prod.splits loop_exit.splits option.splits)

text \<open>
  Claim C2. When the cycle returns a result, its mode is \<open>'simple'\<close> exactly when the
  summary output parsed to an object with a non-empty text; then \<open>responseContent\<close>
  carries that text and there is one response message, holding that content. Otherwise the
  mode is \<open>'none'\<close>, \<open>responseContent\<close> is \<open>null\<close> and the list of response messages is
  empty.
\<close>

theorem summary_decides_mode:
  assumes "runMultiStepCoreTest rt wd = (Resolved r, st)"
  shows "if \<exists>s t. summary_parse_result (summary wd) = Some s \<and> summary_text s = Some t \<and> t \<noteq> []
         then mode r = ''simple''
              \<and> (\<exists>c. responseContent r = Some c
                     \<and> Some (content_text c) = summary_text (the (summary_parse_result (summary wd)))
                     \<and> map memory_content (responseMessages r) = [c])
         else mode r = ''none'' \<and> mode r \<noteq> ''simple'' \<and> responseContent r = None
              \<and> responseMessages r = []"
  unfolding run_resolved [OF assms]
  by (auto simp: build_result_def truthy_def Let_def split: option.splits)

text \<open>Witness for C2: the successful workflow of the test suite.\<close>

theorem summary_decides_mode_witness:
  "runMultiStepCoreTest (test_runtime None) successful_world
     = (Resolved \<lparr>responseContent =
                    Some \<lparr>content_actions = [''REPLY''], content_text = ''Final response to user'',
                          content_thought = ''Task completed successfully'', content_simple = True\<rparr>,
                  responseMessages =
                    [\<lparr>memory_id = ''test-response-id'', memory_entityId = ''test-agent-id'',
                      memory_content =
                        \<lparr>content_actions = [''REPLY''], content_text = ''Final response to user'',
                         content_thought = ''Task completed successfully'', content_simple = True\<rparr>\<rparr>],
                  mode = ''simple''\<rparr>,
        snd (runMultiStepCoreTest (test_runtime None) successful_world))
   \<and> mode (build_result (test_runtime None) (summary_parse_result (summary successful_world))) = ''simple''"
proof -
  have run: "fst (runMultiStepCoreTest (test_runtime None) successful_world)
     = Resolved (build_result (test_runtime None) (summary_parse_result (summary successful_world)))"
    by code_simp
  then have h: "runMultiStepCoreTest (test_runtime None) successful_world
     = (Resolved (build_result (test_runtime None) (summary_parse_result (summary successful_world))),
        snd (runMultiStepCoreTest (test_runtime None) successful_world))"
    by (metis prod.collapse)
  have ex: "\<exists>s t. summary_parse_result (summary successful_world) = Some s \<and> summary_text s = Some t \<and> t \<noteq> []"
    by (simp add: successful_world_def quiet_summary_def final_summary_def)
  have val: "build_result (test_runtime None) (summary_parse_result (summary successful_world))
     = \<lparr>responseContent =
                    Some \<lparr>content_actions = [''REPLY''], content_text = ''Final response to user'',
                          content_thought = ''Task completed successfully'', content_simple = True\<rparr>,
                  responseMessages =
                    [\<lparr>memory_id = ''test-response-id'', memory_entityId = ''test-agent-id'',
                      memory_content =
                        \<lparr>content_actions = [''REPLY''], content_text = ''Final response to user'',
                         content_thought = ''Task completed successfully'', content_simple = True\<rparr>\<rparr>],
                  mode = ''simple''\<rparr>"
    by code_simp
  from summary_decides_mode [OF h] ex h val show ?thesis
    by simp
qed

lemma runIteration_parse_failure:
  assumes "composeState_throws w = None" "useModel_throws w = None"
    "parseKeyValueXml_result w = None"
  shows "runIteration rt w i st =
     (Break, push parse_error_entry
               (record_call (UseModel (InStep i)) (record_call (ComposeState (InStep i)) st)))"
  using assms by (simp add: runIteration_def Let_def)

text \<open>
  Claim C3, as the code has it. When the model output of an iteration does not parse, the
  entry \<open>parse_error\<close> (with \<open>success = false\<close>) is pushed on the trace and the loop is
  left by \<open>break\<close> in that same iteration, whatever the ceiling: no further iteration is
  started.
\<close>

theorem parse_failure_stops_loop:
  assumes "js_less i m"
    and "composeState_throws (W (Suc i)) = None" and "useModel_throws (W (Suc i)) = None"
    and "parseKeyValueXml_result (W (Suc i)) = None"
  shows "\<exists>st'. multiStepLoop rt W m i st = (Exited, Suc i, st')
           \<and> traceActionResult st' = traceActionResult st @ [parse_error_entry]
           \<and> success parse_error_entry = False
           \<and> iterations_run st' = Suc (iterations_run st)"
  using assms(1) runIteration_parse_failure [OF assms(2-4), of rt "Suc i" st]
  by (simp add: push_def record_call_def iterations_run_def parse_error_entry_def)

text \<open>Witness for C3: the first output is unparsable, the ceiling is the default 6.\<close>

theorem parse_failure_stops_loop_witness:
  "js_less 0 (maxIterations_of (test_runtime None))
   \<and> composeState_throws (step_at unparsable_first_world (Suc 0)) = None
   \<and> useModel_throws (step_at unparsable_first_world (Suc 0)) = None
   \<and> parseKeyValueXml_result (step_at unparsable_first_world (Suc 0)) = None
   \<and> (\<exists>st'. multiStepLoop (test_runtime None) (step_at unparsable_first_world)
                (maxIterations_of (test_runtime None)) 0 initial_state = (Exited, Suc 0, st')
           \<and> traceActionResult st' = traceActionResult initial_state @ [parse_error_entry]
           \<and> success parse_error_entry = False
           \<and> iterations_run st' = Suc (iterations_run initial_state))"
proof -
  have a: "js_less 0 (maxIterations_of (test_runtime None))" by code_simp
  have b: "composeState_throws (step_at unparsable_first_world (Suc 0)) = None"
    by (simp add: unparsable_first_world_def quiet_step_def)
  have c: "useModel_throws (step_at unparsable_first_world (Suc 0)) = None"
    by (simp add: unparsable_first_world_def quiet_step_def)
  have d: "parseKeyValueXml_result (step_at unparsable_first_world (Suc 0)) = None"
    by (simp add: unparsable_first_world_def quiet_step_def)
  from parse_failure_stops_loop
         [where i = 0 and m = "maxIterations_of (test_runtime None)"
            and W = "step_at unparsable_first_world" and rt = "test_runtime None"
            and st = initial_state] a b c d
  show ?thesis by blast
qed

text \<open>
  Counterexample to C3 as stated: with the default ceiling of 6, an unparsable output in
  iteration 1 and a parsable one ready for iteration 2, only one iteration runs; iteration
  2 never calls \<open>composeState\<close>.
\<close>

theorem parse_failure_continues_counterexample:
  "maxIterations_of (test_runtime None) = Some 6
   \<and> parseKeyValueXml_result (step_at unparsable_first_world 1) = None
   \<and> parseKeyValueXml_result (step_at unparsable_first_world 2) = Some never_finishing_step
   \<and> iterations_run (snd (runMultiStepCoreTest (test_runtime None) unparsable_first_world)) = 1
   \<and> ComposeState (InStep 2)
        \<notin> set (calls (snd (runMultiStepCoreTest (test_runtime None) unparsable_first_world)))"
  by code_simp







section \<open>Properties of the world settings functions\<close>

lemma getWorldSettings_resolves: "\<exists>r. fst (getWorldSettings cu rt sid) = Resolved r"
  by (auto simp: getWorldSettings_def split: prod.splits sum.splits)

lemma updateWorldSettings_resolves: "\<exists>b. fst (updateWorldSettings cu rt sid ws) = Resolved b"
  by (auto simp: updateWorldSettings_def split: prod.splits sum.splits)

lemma getWorldSettings_read_fails:
  assumes "storage_fault rt (storage_calls rt) = Some e"
  shows "getWorldSettings cu rt sid =
     (Resolved None,
      logger_error (''Error getting settings state: '' @ error_string e)
        (rt\<lparr>storage_calls := Suc (storage_calls rt)\<rparr>))"
  using assms by (simp add: getWorldSettings_def getWorldSettings_try_def getWorld_def Let_def)

lemma updateWorldSettings_read_fails:
  assumes "storage_fault rt (storage_calls rt) = Some e"
  shows "updateWorldSettings cu rt sid ws =
     (Resolved False,
      logger_error (''Error updating settings state: '' @ error_string e)
        (rt\<lparr>storage_calls := Suc (storage_calls rt)\<rparr>))"
  using assms
  by (simp add: updateWorldSettings_def updateWorldSettings_try_def getWorld_def Let_def)

lemma updateWorldSettings_write_fails:
  assumes "storage_fault rt (storage_calls rt) = None"
    and "worlds rt (cu (agentId rt) sid) = Some w"
    and "storage_fault rt (Suc (storage_calls rt)) = Some e"
  shows "updateWorldSettings cu rt sid ws =
     (Resolved False,
      logger_error (''Error updating settings state: '' @ error_string e)
        (rt\<lparr>storage_calls := Suc (Suc (storage_calls rt))\<rparr>))"
  using assms
  by (simp add: updateWorldSettings_def updateWorldSettings_try_def getWorld_def
        updateWorld_def Let_def)

text \<open>
  Claim C8. \<open>getWorldSettings\<close> and \<open>updateWorldSettings\<close> always resolve, whatever the
  storage does. When the world read throws, \<open>getWorldSettings\<close> returns \<open>null\<close> and
  \<open>updateWorldSettings\<close> returns \<open>false\<close>; when the read succeeds and the world write
  throws, \<open>updateWorldSettings\<close> returns \<open>false\<close>. In each case the error is written to
  the error log and the stored worlds are left as they were.
\<close>

theorem storage_failure_is_contained:
  "(\<exists>r. fst (getWorldSettings cu rt sid) = Resolved r)
   \<and> (\<exists>b. fst (updateWorldSettings cu rt sid ws) = Resolved b)
   \<and> (storage_fault rt (storage_calls rt) = Some e \<longrightarrow>
        fst (getWorldSettings cu rt sid) = Resolved None
        \<and> error_log (snd (getWorldSettings cu rt sid))
            = error_log rt @ [''Error getting settings state: '' @ error_string e]
        \<and> fst (updateWorldSettings cu rt sid ws) = Resolved False
        \<and> worlds (snd (updateWorldSettings cu rt sid ws)) = worlds rt
        \<and> error_log (snd (updateWorldSettings cu rt sid ws))
            = error_log rt @ [''Error updating settings state: '' @ error_string e])
   \<and> (storage_fault rt (storage_calls rt) = None
        \<and> worlds rt (cu (agentId rt) sid) = Some w
        \<and> storage_fault rt (Suc (storage_calls rt)) = Some e \<longrightarrow>
        fst (updateWorldSettings cu rt sid ws) = Resolved False
        \<and> worlds (snd (updateWorldSettings cu rt sid ws)) = worlds rt
        \<and> error_log (snd (updateWorldSettings cu rt sid ws))
            = error_log rt @ [''Error updating settings state: '' @ error_string e])"
  using getWorldSettings_resolves [of cu rt sid] updateWorldSettings_resolves [of cu rt sid ws]
    getWorldSettings_read_fails [of rt e cu sid] updateWorldSettings_read_fails [of rt e cu sid ws]
    updateWorldSettings_write_fails [of rt cu sid w e ws]
  by (auto simp: logger_error_def)

text \<open>
  Witness for C8: a storage that refuses every call, and one whose second call (the
  write) fails.
\<close>

theorem storage_failure_is_contained_witness:
  "storage_fault (storage_with storage_down) (storage_calls (storage_with storage_down))
     = Some ''connection refused''
   \<and> fst (getWorldSettings join_ids (storage_with storage_down) ''server-1'') = Resolved None
   \<and> fst (updateWorldSettings join_ids (storage_with storage_down) ''server-1'' settings_A_only)
       = Resolved False
   \<and> storage_fault (storage_with fails_second) (storage_calls (storage_with fails_second)) = None
   \<and> worlds (storage_with fails_second) (join_ids (agentId (storage_with fails_second)) ''server-1'')
       = Some server_world
   \<and> storage_fault (storage_with fails_second) (Suc (storage_calls (storage_with fails_second)))
       = Some ''disk full''
   \<and> fst (updateWorldSettings join_ids (storage_with fails_second) ''server-1'' settings_A_only)
       = Resolved False
   \<and> error_log (snd (updateWorldSettings join_ids (storage_with fails_second) ''server-1''
                        settings_A_only))
       = [''Error updating settings state: Error: disk full'']"
proof -
  have a: "storage_fault (storage_with storage_down) (storage_calls (storage_with storage_down))
     = Some ''connection refused''"
    by (simp add: storage_with_def storage_down_def)
  have b: "storage_fault (storage_with fails_second) (storage_calls (storage_with fails_second)) = None"
    and c: "worlds (storage_with fails_second) (join_ids (agentId (storage_with fails_second)) ''server-1'')
       = Some server_world"
    and d: "storage_fault (storage_with fails_second) (Suc (storage_calls (storage_with fails_second)))
       = Some ''disk full''"
    and l: "error_log (storage_with fails_second) = []"
    by (simp_all add: storage_with_def fails_second_def)
  note T1 = storage_failure_is_contained
      [where rt = "storage_with storage_down" and e = "''connection refused''"
         and cu = join_ids and sid = "''server-1''" and ws = settings_A_only]
  note T2 = storage_failure_is_contained
      [where rt = "storage_with fails_second" and e = "''disk full''" and w = server_world
         and cu = join_ids and sid = "''server-1''" and ws = settings_A_only]
  from T1 a have r1: "fst (getWorldSettings join_ids (storage_with storage_down) ''server-1'') = Resolved None"
    "fst (updateWorldSettings join_ids (storage_with storage_down) ''server-1'' settings_A_only)
       = Resolved False"
    by blast+
  from T2 b c d have r2: "fst (updateWorldSettings join_ids (storage_with fails_second) ''server-1'' settings_A_only)
       = Resolved False"
    "error_log (snd (updateWorldSettings join_ids (storage_with fails_second) ''server-1''
                        settings_A_only))
       = error_log (storage_with fails_second) @ [''Error updating settings state: '' @ error_string ''disk full'']"
    by blast+
  from a b c d r1 r2 l show ?thesis by (simp add: error_string_def)
qed














section \<open>Properties of the evaluation engine\<close>

lemma runEvaluations_loop_all_return:
  "list_all (\<lambda>e. returns (evaluate_one evs rr e)) es \<Longrightarrow>
     runEvaluations_loop evs rr es results
       = Inr (results @ map (\<lambda>e. projr (evaluate_one evs rr e)) es)"
proof (induction es arbitrary: results)
  case Nil
  then show ?case by simp
next
  case (Cons e es)
  from Cons.prems obtain r where r: "evaluate_one evs rr e = Inr r"
    by (auto simp: returns_def split: sum.splits)
  from Cons.prems have "list_all (\<lambda>e. returns (evaluate_one evs rr e)) es" by simp
  from Cons.IH [OF this, of "results @ [r]"] r show ?case by simp
qed

lemma runEvaluations_loop_throws:
  "list_all (\<lambda>e. returns (evaluate_one evs rr e)) pre \<Longrightarrow> evaluate_one evs rr e = Inl x \<Longrightarrow>
     runEvaluations_loop evs rr (pre @ e # post) results = Inl x"
proof (induction pre arbitrary: results)
  case Nil
  then show ?case by simp
next
  case (Cons p pre)
  from Cons.prems(1) obtain r where r: "evaluate_one evs rr p = Inr r"
    by (auto simp: returns_def split: sum.splits)
  from Cons.prems have "list_all (\<lambda>e. returns (evaluate_one evs rr e)) pre" by simp
  from Cons.IH [OF this Cons.prems(2), of "results @ [r]"] r show ?case by simp
qed

lemma evaluators_lookup:
  "evaluators w ''string_contains'' = Some StringContainsEvaluator"
  "evaluators w ''regex_match'' = Some (RegexMatchEvaluator w)"
  "evaluators w ''trajectory_contains_action'' = Some (TrajectoryContainsActionEvaluator w)"
  by (simp_all add: evaluators_def register_def)

text \<open>
  Claim C7, as the code has it. \<open>runEvaluations\<close> has no \<open>catch\<close>. When every
  evaluator it calls returns, it resolves to exactly one result per requested evaluation,
  in the order of the input list. An unknown evaluator type gives a failed result with the
  message \<open>Unknown evaluator type: '<type>'\<close>. The \<open>string_contains\<close> evaluator always
  returns, and a failure of \<open>getMemories\<close> inside the trajectory evaluator is caught
  there and recorded as a failed result. When an evaluator throws, as \<open>regex_match\<close>
  does on a pattern that \<open>RegExp\<close> rejects, \<open>runEvaluations\<close> rejects with that
  exception and returns no results.
\<close>

theorem runEvaluations_results:
  "(list_all (\<lambda>e. returns (evaluate_one evs rr e)) es \<longrightarrow>
      runEvaluations_with evs es rr = Resolved (map (\<lambda>e. projr (evaluate_one evs rr e)) es))
   \<and> (evs (eval_type e) = None \<longrightarrow>
        evaluate_one evs rr e
          = Inr \<lparr>eval_success = False,
                 eval_message = ''Unknown evaluator type: '' @ squote @ eval_type e @ squote\<rparr>)
   \<and> (list_all (\<lambda>e. returns (evaluate_one evs rr e)) pre \<and> evaluate_one evs rr e = Inl x \<longrightarrow>
        runEvaluations_with evs (pre @ e # post) rr = Rejected x)
   \<and> (eval_type e = ''string_contains'' \<longrightarrow>
        evaluate_one (evaluators w) rr e
          = Inr \<lparr>eval_success = js_includes (stdout rr) (eval_value e),
                 eval_message = ''Checked if stdout contains '' @ dquote @ eval_value e @ dquote
                   @ ''. Result: '' @ show_bool (js_includes (stdout rr) (eval_value e))\<rparr>)
   \<and> (eval_type e = ''trajectory_contains_action'' \<and> getMemories w = Inl x \<longrightarrow>
        evaluate_one (evaluators w) rr e
          = Inr \<lparr>eval_success = False,
                 eval_message = ''Failed to check action trajectory: '' @ x\<rparr>)
   \<and> (eval_type e = ''regex_match'' \<and> RegExp_new w (eval_pattern e) = Inl x \<longrightarrow>
        evaluate_one (evaluators w) rr e = Inl x)"
  using runEvaluations_loop_all_return [of evs rr es "[]"]
    runEvaluations_loop_throws [of evs rr pre e x post "[]"]
  by (auto simp: runEvaluations_with_def evaluate_one_def evaluators_lookup
        StringContainsEvaluator_def TrajectoryContainsActionEvaluator_def trajectory_try_def
        RegexMatchEvaluator_def Let_def)

text \<open>
  Counterexample to C7 as stated: a \<open>regex_match\<close> evaluation with the pattern \<open>(\<close>
  makes \<open>runEvaluations\<close> reject, and the result of the evaluation before it is lost.
\<close>

theorem runEvaluations_throws_counterexample:
  "runEvaluations strict_world [request ''string_contains'', request ''regex_match''] run_result
     = Rejected ''Invalid regular expression: /(/i: Unterminated group''"
  by code_simp

text \<open>
  Witness for C7: three evaluations that return (one of unknown type, one whose memory
  read fails) give three results in order; a list holding the pattern \<open>(\<close> rejects.
\<close>

theorem runEvaluations_results_witness:
  "list_all (\<lambda>e. returns (evaluate_one (evaluators strict_world) run_result e))
     [request ''string_contains'', request ''nope'', request ''trajectory_contains_action'']
   \<and> (\<exists>rs. runEvaluations strict_world
               [request ''string_contains'', request ''nope'',
                request ''trajectory_contains_action''] run_result = Resolved rs
          \<and> map eval_success rs = [True, False, False])
   \<and> evaluators strict_world (eval_type (request ''nope'')) = None
   \<and> eval_message (projr (evaluate_one (evaluators strict_world) run_result (request ''nope'')))
       = ''Unknown evaluator type: '' @ squote @ ''nope'' @ squote
   \<and> getMemories strict_world = Inl ''database closed''
   \<and> evaluate_one (evaluators strict_world) run_result (request ''trajectory_contains_action'')
       = Inr \<lparr>eval_success = False,
              eval_message = ''Failed to check action trajectory: database closed''\<rparr>
   \<and> RegExp_new strict_world (eval_pattern (request ''regex_match''))
       = Inl ''Invalid regular expression: /(/i: Unterminated group''
   \<and> runEvaluations_with (evaluators strict_world)
        ([request ''string_contains''] @ request ''regex_match'' # [request ''file_exists''])
        run_result
       = Rejected ''Invalid regular expression: /(/i: Unterminated group''"
proof -
  let ?evs = "evaluators strict_world"
  let ?es = "[request ''string_contains'', request ''nope'',
              request ''trajectory_contains_action'']"
  let ?x = "''Invalid regular expression: /(/i: Unterminated group''"
  have a: "list_all (\<lambda>e. returns (evaluate_one ?evs run_result e)) ?es"
    by code_simp
  have b: "?evs (eval_type (request ''nope'')) = None"
    by (simp add: evaluators_def register_def request_def)
  have c: "getMemories strict_world = Inl ''database closed''"
    and d: "RegExp_new strict_world (eval_pattern (request ''regex_match'')) = Inl ?x"
    and t: "eval_type (request ''trajectory_contains_action'') = ''trajectory_contains_action''"
      "eval_type (request ''regex_match'') = ''regex_match''"
      "eval_type (request ''nope'') = ''nope''"
      "eval_type (request ''string_contains'') = ''string_contains''"
    by (simp_all add: strict_world_def request_def)
  have p: "list_all (\<lambda>e. returns (evaluate_one ?evs run_result e)) [request ''string_contains'']"
    by code_simp
  have s: "map eval_success (map (\<lambda>e. projr (evaluate_one ?evs run_result e)) ?es)
             = [True, False, False]"
    by code_simp
  note T1 = runEvaluations_results
      [where evs = ?evs and rr = run_result and es = ?es and e = "request ''nope''"]
  note T2 = runEvaluations_results
      [where evs = ?evs and rr = run_result and w = strict_world
         and e = "request ''trajectory_contains_action''" and x = "''database closed''"]
  note T3 = runEvaluations_results
      [where evs = ?evs and rr = run_result and w = strict_world
         and pre = "[request ''string_contains'']" and post = "[request ''file_exists'']"
         and e = "request ''regex_match''" and x = ?x]
  from T1 a have "runEvaluations_with ?evs ?es run_result
      = Resolved (map (\<lambda>e. projr (evaluate_one ?evs run_result e)) ?es)"
    by blast
  with s have r1: "\<exists>rs. runEvaluations strict_world ?es run_result = Resolved rs
          \<and> map eval_success rs = [True, False, False]"
    by (simp add: runEvaluations_def)
  from T1 b have "evaluate_one ?evs run_result (request ''nope'')
          = Inr \<lparr>eval_success = False,
                 eval_message = ''Unknown evaluator type: '' @ squote
                   @ eval_type (request ''nope'') @ squote\<rparr>"
    by blast
  with t have r2: "eval_message (projr (evaluate_one ?evs run_result (request ''nope'')))
       = ''Unknown evaluator type: '' @ squote @ ''nope'' @ squote"
    by simp
  from T2 t c have r3: "evaluate_one ?evs run_result (request ''trajectory_contains_action'')
       = Inr \<lparr>eval_success = False,
              eval_message = ''Failed to check action trajectory: '' @ ''database closed''\<rparr>"
    by blast
  from T3 t d have "evaluate_one ?evs run_result (request ''regex_match'') = Inl ?x"
    by blast
  with T3 p have r4: "runEvaluations_with ?evs
        ([request ''string_contains''] @ request ''regex_match'' # [request ''file_exists''])
        run_result = Rejected ?x"
    by blast
  from a b c d r1 r2 r3 r4 show ?thesis by simp
qed

section \<open>Properties of message ingestion\<close>

lemma createMessage_stores:
  assumes "create_fault s (create_calls s) = None" and "sourceId d = Some sid"
  shows "\<exists>m. fst (createMessage s d) = Inr m \<and> sourceId m = Some sid
           \<and> m \<in> set (with_source sid (snd (createMessage s d)))
           \<and> with_source sid (snd (createMessage s d))
               = (if with_source sid s = [] then [m] else with_source sid s)
           \<and> create_calls (snd (createMessage s d)) = Suc (create_calls s)
           \<and> create_fault (snd (createMessage s d)) = create_fault s
           \<and> internalMessageBus (snd (createMessage s d)) = internalMessageBus s"
proof (cases "find (\<lambda>m. sourceId m = Some sid) (stored_messages s)")
  case None
  then have "with_source sid s = []"
    by (simp add: with_source_def find_None_iff filter_empty_conv)
  with None assms show ?thesis
    by (simp add: createMessage_def stored_with_source_def with_source_def Let_def)
next
  case (Some m)
  then have "m \<in> set (stored_messages s)" "sourceId m = Some sid"
    by (auto simp: find_Some_iff)
  then have "with_source sid s \<noteq> []"
    by (auto simp: with_source_def filter_empty_conv)
  with Some assms \<open>m \<in> set (stored_messages s)\<close> \<open>sourceId m = Some sid\<close> show ?thesis
    by (simp add: createMessage_def stored_with_source_def with_source_def Let_def)
qed

lemma ingest_external_accepted:
  assumes "truthy (channel_id p)" "truthy (server_id p)" "truthy (author_id p)"
    "truthy (payload_content p)" and "source_id p = Some sid"
    and "create_fault s (create_calls s) = None"
  shows "\<exists>m. fst (ingest_external vu s p)
               = \<lparr>http_status = 202, json_success = True, json_error = None,
                  json_messageId = Some (msg_id m)\<rparr>
           \<and> sourceId m = Some sid
           \<and> m \<in> set (with_source sid (snd (ingest_external vu s p)))
           \<and> with_source sid (snd (ingest_external vu s p))
               = (if with_source sid s = [] then [m] else with_source sid s)
           \<and> create_calls (snd (ingest_external vu s p)) = Suc (create_calls s)
           \<and> create_fault (snd (ingest_external vu s p)) = create_fault s
           \<and> map bus_source_id (internalMessageBus (snd (ingest_external vu s p)))
               = map bus_source_id (internalMessageBus s) @ [Some sid]"
proof -
  let ?d = "\<lparr>channelId = the (channel_id p), authorId = the (author_id p),
             msg_content = the (payload_content p), rawMessage = raw_message p,
             sourceId = source_id p, sourceType = source_type p,
             inReplyToRootMessageId =
               (if truthy (in_reply_to_message_id p)
                then vu (the (in_reply_to_message_id p)) else None),
             msg_metadata = payload_metadata p\<rparr>"
  have sd: "sourceId ?d = Some sid" using assms(5) by simp
  from createMessage_stores [OF assms(6) sd] obtain m where
    m: "fst (createMessage s ?d) = Inr m" "sourceId m = Some sid"
      "m \<in> set (with_source sid (snd (createMessage s ?d)))"
      "with_source sid (snd (createMessage s ?d))
         = (if with_source sid s = [] then [m] else with_source sid s)"
      "create_calls (snd (createMessage s ?d)) = Suc (create_calls s)"
      "create_fault (snd (createMessage s ?d)) = create_fault s"
      "internalMessageBus (snd (createMessage s ?d)) = internalMessageBus s"
    by blast
  obtain s' where c: "createMessage s ?d = (Inr m, s')"
    using m(1) by (cases "createMessage s ?d") auto
  with m have s': "with_source sid s' = (if with_source sid s = [] then [m] else with_source sid s)"
    "m \<in> set (with_source sid s')"
    "create_calls s' = Suc (create_calls s)" "create_fault s' = create_fault s"
    "internalMessageBus s' = internalMessageBus s"
    by simp_all
  from assms(1-4) c have r: "ingest_external vu s p =
      (\<lparr>http_status = 202, json_success = True, json_error = None,
        json_messageId = Some (msg_id m)\<rparr>,
       s'\<lparr>internalMessageBus := internalMessageBus s' @
            [\<lparr>bus_id = msg_id m, bus_channel_id = channelId m,
              bus_server_id = the (server_id p), bus_author_id = authorId m,
              bus_author_display_name = author_display_name p,
              bus_content = msg_content m, bus_raw_message = rawMessage m,
              bus_source_id = sourceId m, bus_source_type = sourceType m,
              bus_in_reply_to_message_id = inReplyToRootMessageId m,
              bus_created_at = createdAt m, bus_metadata = msg_metadata m\<rparr>]\<rparr>)"
    by (simp add: ingest_external_def Let_def)
  show ?thesis
    unfolding r using s' m(2) by (auto simp: with_source_def)
qed

text \<open>
  Claim C5. The handler hands the payload's source id to \<open>createMessage\<close> unchanged and
  stores nothing by itself. So when the same external message id is submitted twice (the
  two payloads may differ in anything else) to a store that holds at most one message with
  that source id, both requests are accepted, the store holds exactly one message with that
  source id after the first and still the same one after the second, and both answers
  carry the id of that one message.
\<close>

theorem ingestion_is_idempotent:
  assumes "truthy (channel_id p)" "truthy (server_id p)" "truthy (author_id p)"
    "truthy (payload_content p)"
    and "truthy (channel_id p')" "truthy (server_id p')" "truthy (author_id p')"
    "truthy (payload_content p')"
    and "source_id p = Some sid" and "source_id p' = Some sid"
    and "create_fault s (create_calls s) = None"
    and "create_fault s (Suc (create_calls s)) = None"
    and "length (with_source sid s) \<le> 1"
  shows "http_status (fst (ingest_external vu s p)) = 202
     \<and> length (with_source sid (snd (ingest_external vu s p))) = 1
     \<and> http_status (fst (ingest_external vu (snd (ingest_external vu s p)) p')) = 202
     \<and> with_source sid (snd (ingest_external vu (snd (ingest_external vu s p)) p'))
         = with_source sid (snd (ingest_external vu s p))
     \<and> length (with_source sid (snd (ingest_external vu (snd (ingest_external vu s p)) p'))) = 1
     \<and> json_messageId (fst (ingest_external vu (snd (ingest_external vu s p)) p'))
         = json_messageId (fst (ingest_external vu s p))"
proof -
  let ?s1 = "snd (ingest_external vu s p)"
  from ingest_external_accepted [OF assms(1-4) assms(9) assms(11), of vu] obtain m where
    m: "fst (ingest_external vu s p)
          = \<lparr>http_status = 202, json_success = True, json_error = None,
             json_messageId = Some (msg_id m)\<rparr>"
      "m \<in> set (with_source sid ?s1)"
      "with_source sid ?s1 = (if with_source sid s = [] then [m] else with_source sid s)"
      "create_calls ?s1 = Suc (create_calls s)" "create_fault ?s1 = create_fault s"
    by blast
  from m(3) assms(13) have "length (with_source sid ?s1) = 1"
    by (cases "with_source sid s") auto
  with m(2) have one: "with_source sid ?s1 = [m]"
    by (cases "with_source sid ?s1") auto
  from m(4,5) assms(12) have ok: "create_fault ?s1 (create_calls ?s1) = None" by simp
  from ingest_external_accepted [OF assms(5-8) assms(10) ok, of vu] obtain m2 where
    m2: "fst (ingest_external vu ?s1 p')
          = \<lparr>http_status = 202, json_success = True, json_error = None,
             json_messageId = Some (msg_id m2)\<rparr>"
      "m2 \<in> set (with_source sid (snd (ingest_external vu ?s1 p')))"
      "with_source sid (snd (ingest_external vu ?s1 p'))
         = (if with_source sid ?s1 = [] then [m2] else with_source sid ?s1)"
    by blast
  from m2(3) one have same: "with_source sid (snd (ingest_external vu ?s1 p')) = [m]"
    by simp
  with m2(2) have "m2 = m" by simp
  with m(1) m2(1) one same show ?thesis by simp
qed

text \<open>
  Witness for C5: an external message is delivered twice to an empty store; one message is
  stored.
\<close>

theorem ingestion_is_idempotent_witness:
  "truthy (channel_id discord_payload) \<and> truthy (server_id discord_payload)
   \<and> truthy (author_id discord_payload) \<and> truthy (payload_content discord_payload)
   \<and> truthy (channel_id discord_payload_again) \<and> truthy (server_id discord_payload_again)
   \<and> truthy (author_id discord_payload_again) \<and> truthy (payload_content discord_payload_again)
   \<and> source_id discord_payload = Some ''discord-msg-1''
   \<and> source_id discord_payload_again = Some ''discord-msg-1''
   \<and> create_fault empty_server (create_calls empty_server) = None
   \<and> create_fault empty_server (Suc (create_calls empty_server)) = None
   \<and> length (with_source ''discord-msg-1'' empty_server) \<le> 1
   \<and> length (with_source ''discord-msg-1''
        (snd (ingest_external accept_all empty_server discord_payload))) = 1
   \<and> length (with_source ''discord-msg-1''
        (snd (ingest_external accept_all
                (snd (ingest_external accept_all empty_server discord_payload))
                discord_payload_again))) = 1
   \<and> map msg_id (stored_messages
        (snd (ingest_external accept_all
                (snd (ingest_external accept_all empty_server discord_payload))
                discord_payload_again))) = [''message-0'']"
proof -
  have h: "truthy (channel_id discord_payload)" "truthy (server_id discord_payload)"
    "truthy (author_id discord_payload)" "truthy (payload_content discord_payload)"
    "truthy (channel_id discord_payload_again)" "truthy (server_id discord_payload_again)"
    "truthy (author_id discord_payload_again)" "truthy (payload_content discord_payload_again)"
    "source_id discord_payload = Some ''discord-msg-1''"
    "source_id discord_payload_again = Some ''discord-msg-1''"
    "create_fault empty_server (create_calls empty_server) = None"
    "create_fault empty_server (Suc (create_calls empty_server)) = None"
    "length (with_source ''discord-msg-1'' empty_server) \<le> 1"
    by (simp_all add: discord_payload_def discord_payload_again_def empty_server_def truthy_def
          with_source_def)
  have ids: "map msg_id (stored_messages
        (snd (ingest_external accept_all
                (snd (ingest_external accept_all empty_server discord_payload))
                discord_payload_again))) = [''message-0'']"
    by code_simp
  from ingestion_is_idempotent [OF h, of accept_all] h ids show ?thesis
    by simp
qed

section \<open>Properties of the PGlite adapter\<close>

lemma withDatabase_shutting_down:
  assumes "isShuttingDown a"
  shows "withDatabase a operation =
     (Resolved None, a\<lparr>warn_log := warn_log a @ [''Database is shutting down'']\<rparr>)"
  using assms by (simp add: withDatabase_def)

lemma withDatabase_all_shutting_down:
  "isShuttingDown a \<Longrightarrow>
     fst (withDatabase_all a ops) = replicate (length ops) (Resolved None)
     \<and> database (snd (withDatabase_all a ops)) = database a
     \<and> isShuttingDown (snd (withDatabase_all a ops))"
proof (induction ops arbitrary: a)
  case Nil
  then show ?case by simp
next
  case (Cons operation ops)
  let ?a' = "a\<lparr>warn_log := warn_log a @ [''Database is shutting down'']\<rparr>"
  from Cons.prems have "isShuttingDown ?a'" by simp
  from Cons.IH [OF this] withDatabase_shutting_down [OF Cons.prems, of operation]
  show ?case by (auto split: prod.splits)
qed

text \<open>
  Claim C10. While the client manager reports that it is shutting down, \<open>withDatabase\<close>
  returns \<open>null\<close> and leaves the database as it was, whatever the operation is (the
  operation is not run; only a warning is logged), and \<open>isReady\<close> returns \<open>false\<close>. The
  same holds for any sequence of operations issued through \<open>withDatabase\<close>: every one
  returns \<open>null\<close> and the database is never touched.
\<close>

theorem no_database_call_after_shutdown:
  assumes "isShuttingDown a"
  shows "withDatabase a operation =
           (Resolved None, a\<lparr>warn_log := warn_log a @ [''Database is shutting down'']\<rparr>)
         \<and> database (snd (withDatabase a operation)) = database a
         \<and> isReady a = Resolved False
         \<and> fst (withDatabase_all a ops) = replicate (length ops) (Resolved None)
         \<and> database (snd (withDatabase_all a ops)) = database a"
  using assms withDatabase_shutting_down [OF assms, of operation]
    withDatabase_all_shutting_down [OF assms, of ops]
  by (simp add: isReady_def)

text \<open>
  Witness for C10: on an adapter that is closing the counting operation is not run; on an
  open adapter the same operation runs and the database counts it.
\<close>

theorem no_database_call_after_shutdown_witness:
  "isShuttingDown closing_adapter
   \<and> fst (withDatabase closing_adapter count_rows) = Resolved None
   \<and> database (snd (withDatabase closing_adapter count_rows)) = 0
   \<and> isReady closing_adapter = Resolved False
   \<and> fst (withDatabase_all closing_adapter [count_rows, count_rows])
       = [Resolved None, Resolved None]
   \<and> database (snd (withDatabase_all closing_adapter [count_rows, count_rows])) = 0
   \<and> withDatabase open_adapter count_rows
       = (Resolved (Some ''42''), open_adapter\<lparr>database := 1\<rparr>)"
proof -
  have h: "isShuttingDown closing_adapter"
    by (simp add: closing_adapter_def)
  have d: "database closing_adapter = 0"
    by (simp add: closing_adapter_def)
  have o: "withDatabase open_adapter count_rows
       = (Resolved (Some ''42''), open_adapter\<lparr>database := 1\<rparr>)"
    by (simp add: withDatabase_def open_adapter_def count_rows_def)
  have r: "replicate (length [count_rows, count_rows]) (Resolved None :: string option promise)
       = [Resolved None, Resolved None]"
    by (simp add: numeral_2_eq_2)
  note T = no_database_call_after_shutdown [OF h, of count_rows "[count_rows, count_rows]"]
  from T have t1: "fst (withDatabase closing_adapter count_rows) = Resolved None"
    by simp
  from T have "database (snd (withDatabase closing_adapter count_rows)) = database closing_adapter"
    by blast
  with d have t2: "database (snd (withDatabase closing_adapter count_rows)) = 0"
    by simp
  from T have "database (snd (withDatabase_all closing_adapter [count_rows, count_rows]))
       = database closing_adapter"
    by blast
  with d have t4: "database (snd (withDatabase_all closing_adapter [count_rows, count_rows])) = 0"
    by simp
  from T have t3: "isReady closing_adapter = Resolved False"
    by blast
  from T have "fst (withDatabase_all closing_adapter [count_rows, count_rows])
       = replicate (length [count_rows, count_rows]) (Resolved None)"
    by blast
  with r have t5: "fst (withDatabase_all closing_adapter [count_rows, count_rows])
       = [Resolved None, Resolved None]"
    by (simp only:)
  from h t1 t2 t3 t4 t5 o show ?thesis by blast
qed

end
